theory Spec2Isabelle
  imports Complex_Main
begin

section \<open>Numbers, errors and the arithmetic of the scoring code\<close>

text \<open>
  The two scripts \<^verbatim>\<open>philanthropy_csv_app.py\<close> (version 1) and
  \<^verbatim>\<open>philanthropy_csv_app_v2.py\<close> (version 2) compute on floating-point numbers.
  A number is modelled as an exact rational or as NaN (\<open>None\<close>), the value pandas uses
  for "not available". Infinities, signed zeros and binary rounding error are outside
  the model; comparisons and arithmetic on NaN follow IEEE 754 as Python exposes it
  (every comparison with NaN is false, every operation on NaN is NaN).
\<close>

type_synonym number = "rat option"

datatype error = ZeroDivisionError | KeyError

definition and_then :: "error + 'a \<Rightarrow> ('a \<Rightarrow> error + 'b) \<Rightarrow> error + 'b" where
  "and_then m f = (case m of Inl e \<Rightarrow> Inl e | Inr x \<Rightarrow> f x)"

definition py_eq :: "number \<Rightarrow> number \<Rightarrow> bool" where
  "py_eq a b = (case a of None \<Rightarrow> False | Some x \<Rightarrow> (case b of None \<Rightarrow> False | Some y \<Rightarrow> x = y))"

definition py_lt :: "number \<Rightarrow> number \<Rightarrow> bool" where
  "py_lt a b = (case a of None \<Rightarrow> False | Some x \<Rightarrow> (case b of None \<Rightarrow> False | Some y \<Rightarrow> x < y))"

definition py_gt :: "number \<Rightarrow> number \<Rightarrow> bool" where
  "py_gt a b = py_lt b a"

definition py_add :: "number \<Rightarrow> number \<Rightarrow> number" where
  "py_add a b = (case a of None \<Rightarrow> None | Some x \<Rightarrow> (case b of None \<Rightarrow> None | Some y \<Rightarrow> Some (x + y)))"

definition py_mul :: "number \<Rightarrow> number \<Rightarrow> number" where
  "py_mul a b = (case a of None \<Rightarrow> None | Some x \<Rightarrow> (case b of None \<Rightarrow> None | Some y \<Rightarrow> Some (x * y)))"

text \<open>
  Python's \<^verbatim>\<open>a / b\<close> raises ZeroDivisionError when the divisor is zero, whatever
  the dividend is; a NaN operand otherwise gives NaN.
\<close>

definition py_truediv :: "number \<Rightarrow> number \<Rightarrow> error + number" where
  "py_truediv a b =
     (if py_eq b (Some 0) then Inl ZeroDivisionError
      else Inr (case a of None \<Rightarrow> None | Some x \<Rightarrow> (case b of None \<Rightarrow> None | Some y \<Rightarrow> Some (x / y))))"

text \<open>
  \<^verbatim>\<open>min(a, b)\<close> keeps its first argument unless the second is strictly smaller, so
  \<^verbatim>\<open>min(nan, 10)\<close> is NaN.
\<close>

definition py_min :: "number \<Rightarrow> number \<Rightarrow> number" where
  "py_min a b = (if py_lt b a then b else a)"

text \<open>
  \<^verbatim>\<open>round(x, 1)\<close>: the nearest multiple of one tenth, a tie going to the even
  neighbour (Python 3 and numpy both round half to even); NaN stays NaN.
\<close>

definition round_half_even :: "rat \<Rightarrow> int" where
  "round_half_even x =
     (let f = \<lfloor>x\<rfloor>; r = x - of_int f
      in if r < 1 / 2 then f else if 1 / 2 < r then f + 1 else if even f then f else f + 1)"

definition py_round1 :: "number \<Rightarrow> number" where
  "py_round1 v = (case v of None \<Rightarrow> None | Some x \<Rightarrow> Some (of_int (round_half_even (x * 10)) / 10))"

section \<open>The scorer\<close>

subsection \<open>Version 1\<close>

text \<open>
  \<^verbatim>\<open>
  def score_income(val):
      return min(round((val / 1_000_000) * 2, 1), 10)

  def score_pipeline(gifts, asks):
      if asks == 0:
          return 0
      elif gifts > asks:
          return round((asks / gifts) * 8, 1)
      else:
          return round((gifts / asks) * 10, 1)

  def score_team(fte):
      return min(round(fte * 2, 1), 10)

  def score_integration(events):
      return min(round(events / 2, 1), 10)
  \<close>
\<close>

definition score_income :: "number \<Rightarrow> error + number" where
  "score_income val =
     and_then (py_truediv val (Some 1000000))
       (\<lambda>q. Inr (py_min (py_round1 (py_mul q (Some 2))) (Some 10)))"

definition score_pipeline :: "number \<Rightarrow> number \<Rightarrow> error + number" where
  "score_pipeline gifts asks =
     (if py_eq asks (Some 0) then Inr (Some 0)
      else if py_gt gifts asks then
        and_then (py_truediv asks gifts) (\<lambda>q. Inr (py_round1 (py_mul q (Some 8))))
      else
        and_then (py_truediv gifts asks) (\<lambda>q. Inr (py_round1 (py_mul q (Some 10)))))"

definition score_team :: "number \<Rightarrow> error + number" where
  "score_team fte = Inr (py_min (py_round1 (py_mul fte (Some 2))) (Some 10))"

definition score_integration :: "number \<Rightarrow> error + number" where
  "score_integration events =
     and_then (py_truediv events (Some 2)) (\<lambda>q. Inr (py_min (py_round1 q) (Some 10)))"

text \<open>
  \<^verbatim>\<open>composite_score = round((income_score + pipeline_score + team_score + integration_score) / 4, 1)\<close>
\<close>

definition composite_score :: "number \<Rightarrow> number \<Rightarrow> number \<Rightarrow> number \<Rightarrow> error + number" where
  "composite_score income_score pipeline_score team_score integration_score =
     and_then
       (py_truediv (py_add (py_add (py_add income_score pipeline_score) team_score) integration_score)
          (Some 4))
       (\<lambda>q. Inr (py_round1 q))"

subsection \<open>Version 2\<close>

text \<open>The second script repeats the four functions and the composite formula.\<close>

definition score_income_v2 :: "number \<Rightarrow> error + number" where
  "score_income_v2 val =
     and_then (py_truediv val (Some 1000000))
       (\<lambda>q. Inr (py_min (py_round1 (py_mul q (Some 2))) (Some 10)))"

definition score_pipeline_v2 :: "number \<Rightarrow> number \<Rightarrow> error + number" where
  "score_pipeline_v2 gifts asks =
     (if py_eq asks (Some 0) then Inr (Some 0)
      else if py_gt gifts asks then
        and_then (py_truediv asks gifts) (\<lambda>q. Inr (py_round1 (py_mul q (Some 8))))
      else
        and_then (py_truediv gifts asks) (\<lambda>q. Inr (py_round1 (py_mul q (Some 10)))))"

definition score_team_v2 :: "number \<Rightarrow> error + number" where
  "score_team_v2 fte = Inr (py_min (py_round1 (py_mul fte (Some 2))) (Some 10))"

definition score_integration_v2 :: "number \<Rightarrow> error + number" where
  "score_integration_v2 events =
     and_then (py_truediv events (Some 2)) (\<lambda>q. Inr (py_min (py_round1 q) (Some 10)))"

definition composite_score_v2 :: "number \<Rightarrow> number \<Rightarrow> number \<Rightarrow> number \<Rightarrow> error + number" where
  "composite_score_v2 income_score pipeline_score team_score integration_score =
     and_then
       (py_truediv (py_add (py_add (py_add income_score pipeline_score) team_score) integration_score)
          (Some 4))
       (\<lambda>q. Inr (py_round1 q))"

section \<open>Tables, strings and the pandas operations the scripts call\<close>

text \<open>
  A Python string is a sequence of code points; a \<^typ>\<open>char\<close> stands for one code point
  below 256, so the pound sign U+00A3 is the single character \<open>CHR 0xA3\<close>.
\<close>

definition pound :: char where
  "pound = CHR 0xA3"

text \<open>\<^verbatim>\<open>sub in s\<close> on strings: \<open>sub\<close> occurs in \<open>s\<close> as a contiguous run.\<close>

fun str_contains :: "string \<Rightarrow> string \<Rightarrow> bool" where
  "str_contains [] sub = (sub = [])"
| "str_contains (c # cs) sub = (take (length sub) (c # cs) = sub \<or> str_contains cs sub)"

text \<open>
  \<^verbatim>\<open>str.strip()\<close> removes leading and trailing whitespace; below 256 the whitespace
  code points are 9 to 13, 28 to 32, 133 and 160.
\<close>

definition isspace :: "char \<Rightarrow> bool" where
  "isspace c =
     (let n = (of_char c :: nat)
      in (9 \<le> n \<and> n \<le> 13) \<or> (28 \<le> n \<and> n \<le> 32) \<or> n = 133 \<or> n = 160)"

definition strip :: "string \<Rightarrow> string" where
  "strip s = rev (dropWhile isspace (rev (dropWhile isspace s)))"

text \<open>
  A cell of the uploaded table, as \<^verbatim>\<open>pd.read_csv\<close> delivers it: a number (in a column
  that was read as numeric), a string, or the missing value. A data frame is its named
  columns in file order; \<^verbatim>\<open>read_csv\<close> makes the names unique.
\<close>

datatype cell = Number rat | Text string | Blank

type_synonym dataframe = "(string \<times> cell list) list"

definition columns :: "dataframe \<Rightarrow> string list" where
  "columns df = map fst df"

text \<open>\<^verbatim>\<open>df[col]\<close> raises KeyError for a name that is not a column.\<close>

definition getitem :: "dataframe \<Rightarrow> string \<Rightarrow> error + cell list" where
  "getitem df col = (case map_of df col of None \<Rightarrow> Inl KeyError | Some cells \<Rightarrow> Inr cells)"

text \<open>\<^verbatim>\<open>df[cols]\<close> with a list of names: the named columns, in the order of the list.\<close>

fun getitems :: "dataframe \<Rightarrow> string list \<Rightarrow> error + cell list list" where
  "getitems df [] = Inr []"
| "getitems df (col # cols) =
     and_then (getitem df col) (\<lambda>x. and_then (getitems df cols) (\<lambda>xs. Inr (x # xs)))"

text \<open>
  \<^verbatim>\<open>pd.to_numeric(_, errors='coerce')\<close>. Reading a number out of a string is the work
  of pandas, not of the scripts: the reader \<open>num\<close> is a parameter of every function that
  parses, with NaN (\<open>None\<close>) for a string it does not accept. A numeric cell is kept, a
  missing one stays NaN.
\<close>

definition to_numeric_scalar :: "(string \<Rightarrow> number) \<Rightarrow> cell \<Rightarrow> number" where
  "to_numeric_scalar num c = (case c of Number q \<Rightarrow> Some q | Text s \<Rightarrow> num s | Blank \<Rightarrow> None)"

definition to_numeric :: "(string \<Rightarrow> number) \<Rightarrow> cell list \<Rightarrow> number list" where
  "to_numeric num series = map (to_numeric_scalar num) series"

text \<open>
  \<^verbatim>\<open>.replace(",", "", regex=True)\<close>: every comma is deleted from every string cell;
  other cells are left as they are.
\<close>

definition replace_comma :: "cell list \<Rightarrow> cell list" where
  "replace_comma series =
     map (\<lambda>c. case c of Text s \<Rightarrow> Text (filter (\<lambda>ch. ch \<noteq> CHR '','') s) | _ \<Rightarrow> c) series"

text \<open>
  \<^verbatim>\<open>series.astype(str)\<close>: a string cell is itself, the missing value becomes the text
  \<^verbatim>\<open>nan\<close>, and a number is printed; the printer \<open>fmt\<close> is a parameter as well.
\<close>

definition astype_str :: "(rat \<Rightarrow> string) \<Rightarrow> cell \<Rightarrow> string" where
  "astype_str fmt c = (case c of Number q \<Rightarrow> fmt q | Text s \<Rightarrow> s | Blank \<Rightarrow> ''nan'')"

text \<open>
  \<^verbatim>\<open>Series.mean()\<close> skips NaN and is NaN when nothing is left;
  \<^verbatim>\<open>DataFrame.mean().mean()\<close> is the mean of the column means.
\<close>

definition series_mean :: "number list \<Rightarrow> number" where
  "series_mean xs =
     (let vs = List.map_filter (\<lambda>x. x) xs
      in if vs = [] then None else Some (sum_list vs / of_nat (length vs)))"

definition frame_mean :: "number list list \<Rightarrow> number" where
  "frame_mean cols = series_mean (map series_mean cols)"

section \<open>Column selection\<close>

text \<open>
  \<^verbatim>\<open>
  income_cols = [col for col in df.columns if "Donations" in col and "Count" not in col]
  count_cols = [col for col in df.columns if "Donations Count" in col]
  interaction_col = "No. Interactions*"
  events_col = "No Events Attended"
  \<close>
\<close>

definition income_cols :: "dataframe \<Rightarrow> string list" where
  "income_cols df =
     filter (\<lambda>col. str_contains col ''Donations'' \<and> \<not> str_contains col ''Count'') (columns df)"

definition count_cols :: "dataframe \<Rightarrow> string list" where
  "count_cols df = filter (\<lambda>col. str_contains col ''Donations Count'') (columns df)"

definition interaction_col :: string where
  "interaction_col = ''No. Interactions*''"

definition events_col :: string where
  "events_col = ''No Events Attended''"

section \<open>Metric averages\<close>

record averages =
  avg_income :: number
  avg_gifts :: number
  avg_interactions :: number
  avg_events :: number

subsection \<open>Version 1\<close>

text \<open>
  \<^verbatim>\<open>
  avg_income = df[income_cols].replace(",", "", regex=True).apply(pd.to_numeric, errors='coerce').mean().mean()
  avg_gifts = df[count_cols].apply(pd.to_numeric, errors='coerce').mean().mean()
  avg_interactions = df[interaction_col].apply(pd.to_numeric, errors='coerce').mean() if interaction_col in df.columns else 0
  avg_events = df[events_col].apply(pd.to_numeric, errors='coerce').mean() if events_col in df.columns else 0
  \<close>
  The four lines stand in one \<^verbatim>\<open>try\<close> block whose handler reports the error and stops.
\<close>

definition income_numeric_v1 :: "(string \<Rightarrow> number) \<Rightarrow> dataframe \<Rightarrow> error + number list list" where
  "income_numeric_v1 num df =
     and_then (getitems df (income_cols df))
       (\<lambda>cols. Inr (map (\<lambda>series. to_numeric num (replace_comma series)) cols))"

definition gift_numeric_v1 :: "(string \<Rightarrow> number) \<Rightarrow> dataframe \<Rightarrow> error + number list list" where
  "gift_numeric_v1 num df =
     and_then (getitems df (count_cols df)) (\<lambda>cols. Inr (map (to_numeric num) cols))"

definition avg_income_v1 :: "(string \<Rightarrow> number) \<Rightarrow> dataframe \<Rightarrow> error + number" where
  "avg_income_v1 num df = and_then (income_numeric_v1 num df) (\<lambda>d. Inr (frame_mean d))"

definition avg_gifts_v1 :: "(string \<Rightarrow> number) \<Rightarrow> dataframe \<Rightarrow> error + number" where
  "avg_gifts_v1 num df = and_then (gift_numeric_v1 num df) (\<lambda>d. Inr (frame_mean d))"

definition interactions_numeric_v1 :: "(string \<Rightarrow> number) \<Rightarrow> dataframe \<Rightarrow> error + number list" where
  "interactions_numeric_v1 num df =
     and_then (getitem df interaction_col) (\<lambda>series. Inr (to_numeric num series))"

definition avg_interactions_v1 :: "(string \<Rightarrow> number) \<Rightarrow> dataframe \<Rightarrow> error + number" where
  "avg_interactions_v1 num df =
     (if interaction_col \<in> set (columns df)
      then and_then (interactions_numeric_v1 num df) (\<lambda>s. Inr (series_mean s))
      else Inr (Some 0))"

definition events_numeric :: "(string \<Rightarrow> number) \<Rightarrow> dataframe \<Rightarrow> error + number list" where
  "events_numeric num df =
     and_then (getitem df events_col) (\<lambda>series. Inr (to_numeric num series))"

definition avg_events_v1 :: "(string \<Rightarrow> number) \<Rightarrow> dataframe \<Rightarrow> error + number" where
  "avg_events_v1 num df =
     (if events_col \<in> set (columns df)
      then and_then (events_numeric num df) (\<lambda>s. Inr (series_mean s))
      else Inr (Some 0))"

definition averages_v1 :: "(string \<Rightarrow> number) \<Rightarrow> dataframe \<Rightarrow> error + averages" where
  "averages_v1 num df =
     and_then (avg_income_v1 num df) (\<lambda>i.
     and_then (avg_gifts_v1 num df) (\<lambda>g.
     and_then (avg_interactions_v1 num df) (\<lambda>a.
     and_then (avg_events_v1 num df) (\<lambda>e.
       Inr \<lparr>avg_income = i, avg_gifts = g, avg_interactions = a, avg_events = e\<rparr>))))"

text \<open>
  \<^verbatim>\<open>pipeline_score = score_pipeline(avg_gifts, avg_interactions)\<close>, after the averages.
\<close>

definition pipeline_score_v1 :: "(string \<Rightarrow> number) \<Rightarrow> dataframe \<Rightarrow> error + number" where
  "pipeline_score_v1 num df =
     and_then (averages_v1 num df) (\<lambda>m. score_pipeline (avg_gifts m) (avg_interactions m))"

text \<open>
  \<^verbatim>\<open>
  if "Largest Gift" in df.columns:
      ... df["Largest Gift"].replace(",", "", regex=True).apply(pd.to_numeric, errors='coerce').plot(...)
  \<close>
  The series handed to the chart, or nothing when the column is absent.
\<close>

definition largest_gift_v1 :: "(string \<Rightarrow> number) \<Rightarrow> dataframe \<Rightarrow> error + number list option" where
  "largest_gift_v1 num df =
     (if ''Largest Gift'' \<in> set (columns df)
      then and_then (getitem df ''Largest Gift'')
             (\<lambda>series. Inr (Some (to_numeric num (replace_comma series))))
      else Inr None)"

subsection \<open>Version 2\<close>

text \<open>
  \<^verbatim>\<open>
  def clean_currency(series):
      return pd.to_numeric(series.astype(str).str.replace(r"[\<pounds>,]", "", regex=True).str.strip(), errors="coerce")
  \<close>
\<close>

definition clean_currency :: "(string \<Rightarrow> number) \<Rightarrow> (rat \<Rightarrow> string) \<Rightarrow> cell list \<Rightarrow> number list" where
  "clean_currency num fmt series =
     map (\<lambda>c. num (strip (filter (\<lambda>ch. ch \<noteq> pound \<and> ch \<noteq> CHR '','') (astype_str fmt c)))) series"

text \<open>
  \<^verbatim>\<open>
  income_data = df[income_cols].apply(clean_currency)
  gift_data = df[count_cols].apply(pd.to_numeric, errors="coerce")
  avg_income = income_data.mean().mean()
  avg_gifts = gift_data.mean().mean()
  avg_interactions = clean_currency(df[interaction_col]) if interaction_col in df.columns else pd.Series(dtype=float)
  avg_interactions = avg_interactions.mean() if not avg_interactions.empty else 0
  avg_events = pd.to_numeric(df[events_col], errors="coerce").mean() if events_col in df.columns else 0
  \<close>
\<close>

definition income_data_v2 ::
  "(string \<Rightarrow> number) \<Rightarrow> (rat \<Rightarrow> string) \<Rightarrow> dataframe \<Rightarrow> error + number list list" where
  "income_data_v2 num fmt df =
     and_then (getitems df (income_cols df)) (\<lambda>cols. Inr (map (clean_currency num fmt) cols))"

definition gift_data_v2 :: "(string \<Rightarrow> number) \<Rightarrow> dataframe \<Rightarrow> error + number list list" where
  "gift_data_v2 num df =
     and_then (getitems df (count_cols df)) (\<lambda>cols. Inr (map (to_numeric num) cols))"

definition avg_income_v2 ::
  "(string \<Rightarrow> number) \<Rightarrow> (rat \<Rightarrow> string) \<Rightarrow> dataframe \<Rightarrow> error + number" where
  "avg_income_v2 num fmt df = and_then (income_data_v2 num fmt df) (\<lambda>d. Inr (frame_mean d))"

definition avg_gifts_v2 :: "(string \<Rightarrow> number) \<Rightarrow> dataframe \<Rightarrow> error + number" where
  "avg_gifts_v2 num df = and_then (gift_data_v2 num df) (\<lambda>d. Inr (frame_mean d))"

definition interactions_series_v2 ::
  "(string \<Rightarrow> number) \<Rightarrow> (rat \<Rightarrow> string) \<Rightarrow> dataframe \<Rightarrow> error + number list" where
  "interactions_series_v2 num fmt df =
     (if interaction_col \<in> set (columns df)
      then and_then (getitem df interaction_col) (\<lambda>series. Inr (clean_currency num fmt series))
      else Inr [])"

definition avg_interactions_v2 ::
  "(string \<Rightarrow> number) \<Rightarrow> (rat \<Rightarrow> string) \<Rightarrow> dataframe \<Rightarrow> error + number" where
  "avg_interactions_v2 num fmt df =
     and_then (interactions_series_v2 num fmt df)
       (\<lambda>s. Inr (if s \<noteq> [] then series_mean s else Some 0))"

definition avg_events_v2 :: "(string \<Rightarrow> number) \<Rightarrow> dataframe \<Rightarrow> error + number" where
  "avg_events_v2 num df =
     (if events_col \<in> set (columns df)
      then and_then (events_numeric num df) (\<lambda>s. Inr (series_mean s))
      else Inr (Some 0))"

definition averages_v2 ::
  "(string \<Rightarrow> number) \<Rightarrow> (rat \<Rightarrow> string) \<Rightarrow> dataframe \<Rightarrow> error + averages" where
  "averages_v2 num fmt df =
     and_then (avg_income_v2 num fmt df) (\<lambda>i.
     and_then (avg_gifts_v2 num df) (\<lambda>g.
     and_then (avg_interactions_v2 num fmt df) (\<lambda>a.
     and_then (avg_events_v2 num df) (\<lambda>e.
       Inr \<lparr>avg_income = i, avg_gifts = g, avg_interactions = a, avg_events = e\<rparr>))))"

text \<open>
  \<^verbatim>\<open>
  pipeline_score = score_pipeline(avg_gifts, avg_interactions) if pd.notna(avg_gifts) and pd.notna(avg_interactions) else 0
  \<close>
\<close>

definition pipeline_score_v2 ::
  "(string \<Rightarrow> number) \<Rightarrow> (rat \<Rightarrow> string) \<Rightarrow> dataframe \<Rightarrow> error + number" where
  "pipeline_score_v2 num fmt df =
     and_then (averages_v2 num fmt df)
       (\<lambda>m. if avg_gifts m \<noteq> None \<and> avg_interactions m \<noteq> None
            then score_pipeline_v2 (avg_gifts m) (avg_interactions m)
            else Inr (Some 0))"

text \<open>
  \<^verbatim>\<open>
  if "Largest Gift" in df.columns:
      lg = clean_currency(df["Largest Gift"])
  \<close>
\<close>

definition largest_gift_v2 ::
  "(string \<Rightarrow> number) \<Rightarrow> (rat \<Rightarrow> string) \<Rightarrow> dataframe \<Rightarrow> error + number list option" where
  "largest_gift_v2 num fmt df =
     (if ''Largest Gift'' \<in> set (columns df)
      then and_then (getitem df ''Largest Gift'') (\<lambda>series. Inr (Some (clean_currency num fmt series)))
      else Inr None)"

section \<open>The rules of the specification, and a concrete reader and printer\<close>

text \<open>
  The Value Cleaner as the specification words it: strip every pound sign and every
  comma, then leading and trailing whitespace, and parse what remains; "not available"
  when it does not parse.
\<close>

definition value_cleaner :: "(string \<Rightarrow> number) \<Rightarrow> string \<Rightarrow> number" where
  "value_cleaner num s =
     num (dropWhile isspace (rev (dropWhile isspace (rev (removeAll (CHR '','') (removeAll pound s))))))"

text \<open>A name contains a substring when it is some prefix, the substring, some suffix.\<close>

definition is_substring :: "string \<Rightarrow> string \<Rightarrow> bool" where
  "is_substring sub s = (\<exists>p q. s = p @ sub @ q)"

text \<open>
  An input is already clean when it holds no pound sign and no comma and neither starts
  nor ends with whitespace.
\<close>

definition already_clean :: "string \<Rightarrow> bool" where
  "already_clean s =
     (pound \<notin> set s \<and> CHR '','' \<notin> set s
      \<and> (case s of [] \<Rightarrow> True | c # _ \<Rightarrow> \<not> isspace c)
      \<and> (case rev s of [] \<Rightarrow> True | c # _ \<Rightarrow> \<not> isspace c))"

text \<open>A series in which no cell has a value: all its cells were empty or unparseable.\<close>

definition no_value :: "number list \<Rightarrow> bool" where
  "no_value xs = list_all (\<lambda>x. x = None) xs"

text \<open>
  One reader to run the model on concrete cells. It reads what pandas reads in the same
  way on the strings the tables below hold: blanks (code points 9 to 13 and 32) around an
  optional sign, digits, and an optional fraction after a point give that number; a
  string with a currency sign, a thousands separator or letters that spell no number
  gives NaN, and so do the text \<^verbatim>\<open>nan\<close> and the empty string. It is not all of
  pandas' reader: exponents, hexadecimal digits and the spellings of infinity are left
  out (the model has no infinity), so no table below holds such a cell.
\<close>

definition is_blank :: "char \<Rightarrow> bool" where
  "is_blank c = (let n = (of_char c :: nat) in (9 \<le> n \<and> n \<le> 13) \<or> n = 32)"

definition digit_of :: "char \<Rightarrow> nat option" where
  "digit_of c = (let n = (of_char c :: nat) in if 48 \<le> n \<and> n \<le> 57 then Some (n - 48) else None)"

fun nat_of_digits :: "nat \<Rightarrow> string \<Rightarrow> nat option" where
  "nat_of_digits acc [] = Some acc"
| "nat_of_digits acc (c # cs) =
     (case digit_of c of None \<Rightarrow> None | Some d \<Rightarrow> nat_of_digits (10 * acc + d) cs)"

definition unsigned_decimal :: "string \<Rightarrow> number" where
  "unsigned_decimal s =
     (let ip = takeWhile (\<lambda>c. c \<noteq> CHR ''.'') s;
          fp = drop 1 (dropWhile (\<lambda>c. c \<noteq> CHR ''.'') s)
      in if ip = [] \<and> fp = [] then None
         else (case nat_of_digits 0 ip of
                 None \<Rightarrow> None
               | Some i \<Rightarrow>
                  (case nat_of_digits 0 fp of
                     None \<Rightarrow> None
                   | Some f \<Rightarrow> Some (of_nat i + of_nat f / 10 ^ length fp))))"

definition signed_decimal :: "string \<Rightarrow> number" where
  "signed_decimal s =
     (case s of
        [] \<Rightarrow> None
      | c # r \<Rightarrow>
          if c = CHR ''-'' then map_option uminus (unsigned_decimal r)
          else if c = CHR ''+'' then unsigned_decimal r
          else unsigned_decimal s)"

definition decimal :: "string \<Rightarrow> number" where
  "decimal s = signed_decimal (rev (dropWhile is_blank (rev (dropWhile is_blank s))))"

text \<open>
  One printer: the sign, the integer part and up to seventeen digits of the fraction,
  at least one, as Python prints a float that has a short decimal expansion.
\<close>

fun digits_of_nat :: "nat \<Rightarrow> string" where
  "digits_of_nat n =
     (if n < 10 then [char_of (48 + n)] else digits_of_nat (n div 10) @ [char_of (48 + n mod 10)])"

fun fraction_digits :: "nat \<Rightarrow> rat \<Rightarrow> string" where
  "fraction_digits 0 r = []"
| "fraction_digits (Suc k) r =
     (let d = nat \<lfloor>r * 10\<rfloor>; r' = r * 10 - of_nat d
      in char_of (48 + d) # (if r' = 0 then [] else fraction_digits k r'))"

definition print_number :: "rat \<Rightarrow> string" where
  "print_number q =
     (let a = \<bar>q\<bar>; i = nat \<lfloor>a\<rfloor>
      in (if q < 0 then ''-'' else []) @ digits_of_nat i @ ''.'' @ fraction_digits 17 (a - of_nat i))"

text \<open>
  Tables to run the model on. The first is the end-to-end scenario of the specification
  with a largest-gift column added; the second has the same columns and no cell that
  parses; the third is a file with a header line and no rows.
\<close>

definition scenario_table :: dataframe where
  "scenario_table =
     [(''Donations 2023'',
         [Text (pound # ''1,000,000''), Text (pound # ''2,000,000''), Text (pound # ''3,000,000'')]),
      (''Donations Count 2023'', [Number 10, Number 20, Number 30]),
      (''No. Interactions*'', [Number 15, Number 15, Number 15]),
      (''No Events Attended'', [Number 4, Number 4, Number 4]),
      (''Largest Gift'', [Text (pound # ''5,000''), Text ''7,500'', Text '' 250 ''])]"

definition unreadable_table :: dataframe where
  "unreadable_table =
     [(''Donations 2023'', [Text ''pending'', Blank]),
      (''Donations Count 2023'', [Blank, Text ''few'']),
      (''No. Interactions*'', [Text ''?'', Blank]),
      (''No Events Attended'', [Blank, Blank])]"

definition header_only_table :: dataframe where
  "header_only_table =
     [(''Donations 2023'', []), (''Donations Count 2023'', []), (''No. Interactions*'', [])]"

section \<open>Properties of the scorer\<close>

subsection \<open>Rounding stays between the integers around its argument\<close>

lemma round_half_even_lower: "of_int n \<le> x \<Longrightarrow> n \<le> round_half_even x"
proof -
  assume "of_int n \<le> x"
  then have "n \<le> \<lfloor>x\<rfloor>" by (simp add: le_floor_iff)
  moreover have "\<lfloor>x\<rfloor> \<le> round_half_even x" by (simp add: round_half_even_def Let_def)
  ultimately show ?thesis by simp
qed

lemma round_half_even_upper: "x \<le> of_int n \<Longrightarrow> round_half_even x \<le> n"
  unfolding round_half_even_def Let_def
  by (auto simp: floor_le_iff)

lemma py_round1_range:
  assumes "of_int lo \<le> x * 10" and "x * 10 \<le> of_int hi"
  shows "\<exists>s. py_round1 (Some x) = Some s \<and> of_int lo \<le> s * 10 \<and> s * 10 \<le> of_int hi"
proof -
  have "lo \<le> round_half_even (x * 10)" using assms(1) by (rule round_half_even_lower)
  moreover have "round_half_even (x * 10) \<le> hi" using assms(2) by (rule round_half_even_upper)
  ultimately have "of_int lo \<le> (of_int (round_half_even (x * 10)) :: rat)"
    and "(of_int (round_half_even (x * 10)) :: rat) \<le> of_int hi" by simp_all
  then show ?thesis unfolding py_round1_def
    by (intro exI [of _ "of_int (round_half_even (x * 10)) / 10"]) simp
qed

lemma py_min_ten:
  assumes "0 \<le> s"
  shows "\<exists>t. py_min (Some s) (Some 10) = Some t \<and> 0 \<le> t \<and> t \<le> 10"
  using assms by (simp add: py_min_def py_lt_def)

lemma clamped_round_range:
  assumes "0 \<le> x"
  shows "\<exists>t. py_min (py_round1 (Some x)) (Some 10) = Some t \<and> 0 \<le> t \<and> t \<le> 10"
proof -
  have "of_int 0 \<le> x * 10" using assms by simp
  then have "0 \<le> round_half_even (x * 10)" by (rule round_half_even_lower)
  then have "0 \<le> (of_int (round_half_even (x * 10)) :: rat) / 10" by simp
  moreover have "py_round1 (Some x) = Some (of_int (round_half_even (x * 10)) / 10)"
    by (simp add: py_round1_def)
  ultimately show ?thesis using py_min_ten [of "of_int (round_half_even (x * 10)) / 10"] by simp
qed

subsection \<open>Each sub-score on a non-negative number\<close>

lemma score_income_range:
  assumes "0 \<le> v"
  shows "\<exists>s. score_income (Some v) = Inr (Some s) \<and> 0 \<le> s \<and> s \<le> 10"
proof -
  have "0 \<le> v / 1000000 * 2" using assms by simp
  from clamped_round_range [OF this] show ?thesis
    by (simp add: score_income_def py_truediv_def py_eq_def and_then_def py_mul_def)
qed

lemma score_team_range:
  assumes "0 \<le> f"
  shows "\<exists>s. score_team (Some f) = Inr (Some s) \<and> 0 \<le> s \<and> s \<le> 10"
proof -
  have "0 \<le> f * 2" using assms by simp
  from clamped_round_range [OF this] show ?thesis
    by (simp add: score_team_def py_mul_def)
qed

lemma score_integration_range:
  assumes "0 \<le> e"
  shows "\<exists>s. score_integration (Some e) = Inr (Some s) \<and> 0 \<le> s \<and> s \<le> 10"
proof -
  have "0 \<le> e / 2" using assms by simp
  from clamped_round_range [OF this] show ?thesis
    by (simp add: score_integration_def py_truediv_def py_eq_def and_then_def)
qed

text \<open>
  The pipeline score has no \<^verbatim>\<open>min\<close>, yet each branch divides the smaller number by
  the larger one, so the quotient is at most 1 and the score at most 8 or 10.
\<close>

lemma score_pipeline_more_gifts:
  assumes "0 < a" and "a < g"
  shows "py_truediv (Some a) (Some g) = Inr (Some (a / g))"
    and "score_pipeline (Some g) (Some a) = Inr (py_round1 (Some (a / g * 8)))"
  using assms
  by (simp_all add: score_pipeline_def py_eq_def py_gt_def py_lt_def py_truediv_def
      and_then_def py_mul_def)

lemma score_pipeline_fewer_gifts:
  assumes "0 < a" and "g \<le> a"
  shows "py_truediv (Some g) (Some a) = Inr (Some (g / a))"
    and "score_pipeline (Some g) (Some a) = Inr (py_round1 (Some (g / a * 10)))"
  using assms
  by (simp_all add: score_pipeline_def py_eq_def py_gt_def py_lt_def py_truediv_def
      and_then_def py_mul_def)

lemma score_pipeline_range:
  assumes "0 \<le> g" and "0 \<le> a"
  shows "\<exists>s. score_pipeline (Some g) (Some a) = Inr (Some s) \<and> 0 \<le> s \<and> s \<le> 10"
proof -
  consider (zero) "a = 0" | (more) "0 < a" "a < g" | (fewer) "0 < a" "g \<le> a"
    using assms(2) by linarith
  then show ?thesis
  proof cases
    case zero
    then show ?thesis by (simp add: score_pipeline_def py_eq_def)
  next
    case more
    then have pos: "0 < g" by simp
    have lo: "of_int 0 \<le> a / g * 8 * 10" using more pos by simp
    have "a / g \<le> 1" using more pos by simp
    then have hi: "a / g * 8 * 10 \<le> of_int 80" by simp
    from py_round1_range [OF lo hi] obtain s
      where "py_round1 (Some (a / g * 8)) = Some s" "0 \<le> s * 10" "s * 10 \<le> 80" by auto
    then show ?thesis using score_pipeline_more_gifts(2) [OF more] by simp
  next
    case fewer
    have lo: "of_int 0 \<le> g / a * 10 * 10" using fewer assms by simp
    have "g / a \<le> 1" using fewer by simp
    then have hi: "g / a * 10 * 10 \<le> of_int 100" by simp
    from py_round1_range [OF lo hi] obtain s
      where "py_round1 (Some (g / a * 10)) = Some s" "0 \<le> s * 10" "s * 10 \<le> 100" by auto
    then show ?thesis using score_pipeline_fewer_gifts(2) [OF fewer] by simp
  qed
qed

lemma v2_same:
  "score_income_v2 = score_income" "score_pipeline_v2 = score_pipeline"
  "score_team_v2 = score_team" "score_integration_v2 = score_integration"
  by (simp_all add: fun_eq_iff score_income_v2_def score_income_def score_pipeline_v2_def
      score_pipeline_def score_team_v2_def score_team_def score_integration_v2_def
      score_integration_def)

text \<open>
  Claim C1. On every non-negative number each of the four sub-score functions, in both
  versions, returns without raising a number between 0 and 10; in particular
  \<open>score_pipeline\<close> stays at or below 10 although it applies no clamp.
\<close>

theorem sub_scores_in_range:
  assumes "0 \<le> v" and "0 \<le> g" and "0 \<le> a" and "0 \<le> f" and "0 \<le> e"
  shows "(\<exists>s. score_income (Some v) = Inr (Some s) \<and> 0 \<le> s \<and> s \<le> 10)
       \<and> (\<exists>s. score_pipeline (Some g) (Some a) = Inr (Some s) \<and> 0 \<le> s \<and> s \<le> 10)
       \<and> (\<exists>s. score_team (Some f) = Inr (Some s) \<and> 0 \<le> s \<and> s \<le> 10)
       \<and> (\<exists>s. score_integration (Some e) = Inr (Some s) \<and> 0 \<le> s \<and> s \<le> 10)
       \<and> (\<exists>s. score_income_v2 (Some v) = Inr (Some s) \<and> 0 \<le> s \<and> s \<le> 10)
       \<and> (\<exists>s. score_pipeline_v2 (Some g) (Some a) = Inr (Some s) \<and> 0 \<le> s \<and> s \<le> 10)
       \<and> (\<exists>s. score_team_v2 (Some f) = Inr (Some s) \<and> 0 \<le> s \<and> s \<le> 10)
       \<and> (\<exists>s. score_integration_v2 (Some e) = Inr (Some s) \<and> 0 \<le> s \<and> s \<le> 10)"
  unfolding v2_same
  using score_income_range [OF assms(1)] score_pipeline_range [OF assms(2,3)]
    score_team_range [OF assms(4)] score_integration_range [OF assms(5)]
  by blast

theorem sub_scores_in_range_witness:
  "score_income (Some 2000000) = Inr (Some 4)
   \<and> score_pipeline (Some 30) (Some 20) = Inr (Some (53 / 10))
   \<and> score_team (Some 1) = Inr (Some 2)
   \<and> score_integration (Some 4) = Inr (Some 2)
   \<and> (\<exists>s. score_pipeline_v2 (Some 30) (Some 20) = Inr (Some s) \<and> 0 \<le> s \<and> s \<le> 10)"
proof -
  have h: "(0::rat) \<le> 2000000" "(0::rat) \<le> 30" "(0::rat) \<le> 20" "(0::rat) \<le> 1" "(0::rat) \<le> 4"
    by simp_all
  have a: "score_income (Some 2000000) = Inr (Some 4)" by code_simp
  have b: "score_pipeline (Some 30) (Some 20) = Inr (Some (53 / 10))" by code_simp
  have c: "score_team (Some 1) = Inr (Some 2)" by code_simp
  have d: "score_integration (Some 4) = Inr (Some 2)" by code_simp
  from sub_scores_in_range [OF h] a b c d show ?thesis by blast
qed

text \<open>
  Claim C4. The four sub-score functions and the composite formula of version 2 compute,
  on all arguments (NaN included), what those of version 1 compute.
\<close>

theorem versions_agree:
  "score_income_v2 val = score_income val
   \<and> score_pipeline_v2 gifts asks = score_pipeline gifts asks
   \<and> score_team_v2 fte = score_team fte
   \<and> score_integration_v2 events = score_integration events
   \<and> composite_score_v2 i p t n = composite_score i p t n"
  by (simp add: score_income_v2_def score_income_def score_pipeline_v2_def
      score_pipeline_def score_team_v2_def score_team_def score_integration_v2_def
      score_integration_def composite_score_v2_def composite_score_def)

text \<open>
  Claim C5. \<open>score_pipeline(gifts, 0)\<close> is 0 for every \<open>gifts\<close>, NaN included. For
  non-negative \<open>gifts\<close> and \<open>asks\<close> no division has a zero divisor: where \<open>asks\<close> is
  not 0 and \<open>gifts > asks\<close> the quotient \<open>asks / gifts\<close> is computed, otherwise
  \<open>gifts / asks\<close> with \<open>asks\<close> not 0, and the function returns.
\<close>

theorem pipeline_never_divides_by_zero:
  assumes "0 \<le> g" and "0 \<le> a"
  shows "score_pipeline gifts (Some 0) = Inr (Some 0)
       \<and> score_pipeline_v2 gifts (Some 0) = Inr (Some 0)
       \<and> (a \<noteq> 0 \<and> a < g \<longrightarrow>
            py_truediv (Some a) (Some g) = Inr (Some (a / g))
            \<and> score_pipeline (Some g) (Some a) = Inr (py_round1 (Some (a / g * 8))))
       \<and> (a \<noteq> 0 \<and> \<not> a < g \<longrightarrow>
            py_truediv (Some g) (Some a) = Inr (Some (g / a))
            \<and> score_pipeline (Some g) (Some a) = Inr (py_round1 (Some (g / a * 10))))
       \<and> (\<exists>r. score_pipeline (Some g) (Some a) = Inr r)
       \<and> (\<exists>r. score_pipeline_v2 (Some g) (Some a) = Inr r)"
proof -
  have zero: "score_pipeline gifts (Some 0) = Inr (Some 0)"
    by (simp add: score_pipeline_def py_eq_def)
  have more: "a \<noteq> 0 \<and> a < g \<longrightarrow>
      py_truediv (Some a) (Some g) = Inr (Some (a / g))
      \<and> score_pipeline (Some g) (Some a) = Inr (py_round1 (Some (a / g * 8)))"
    using assms score_pipeline_more_gifts [of a g] by simp
  have fewer: "a \<noteq> 0 \<and> \<not> a < g \<longrightarrow>
      py_truediv (Some g) (Some a) = Inr (Some (g / a))
      \<and> score_pipeline (Some g) (Some a) = Inr (py_round1 (Some (g / a * 10)))"
    using assms score_pipeline_fewer_gifts [of a g] by simp
  have ret: "\<exists>r. score_pipeline (Some g) (Some a) = Inr r"
    using score_pipeline_range [OF assms] by blast
  show ?thesis unfolding v2_same using zero more fewer ret by blast
qed

theorem pipeline_never_divides_by_zero_witness:
  "score_pipeline None (Some 0) = Inr (Some 0)
   \<and> py_truediv (Some 15) (Some 20) = Inr (Some (15 / 20))
   \<and> score_pipeline (Some 20) (Some 15) = Inr (py_round1 (Some (15 / 20 * 8)))
   \<and> py_truediv (Some 10) (Some 15) = Inr (Some (10 / 15))
   \<and> score_pipeline (Some 10) (Some 15) = Inr (py_round1 (Some (10 / 15 * 10)))"
proof -
  have h: "(0::rat) \<le> 20" "(0::rat) \<le> 15" "(0::rat) \<le> 10" by simp_all
  have m: "(15::rat) \<noteq> 0 \<and> (15::rat) < 20" by simp
  have f: "(15::rat) \<noteq> 0 \<and> \<not> (15::rat) < 10" by simp
  from pipeline_never_divides_by_zero [OF h(1) h(2), of None]
    pipeline_never_divides_by_zero [OF h(3) h(2), of None] m f
  show ?thesis by blast
qed

text \<open>
  Claim C6. Equal, non-zero \<open>gifts\<close> and \<open>asks\<close> do not satisfy \<open>gifts > asks\<close>: the
  \<^verbatim>\<open>else\<close> branch computes \<open>round(gifts / asks * 10, 1)\<close>, which is 10.
\<close>

theorem pipeline_tie:
  assumes "g \<noteq> 0"
  shows "\<not> py_gt (Some g) (Some g)
       \<and> score_pipeline (Some g) (Some g)
           = and_then (py_truediv (Some g) (Some g)) (\<lambda>q. Inr (py_round1 (py_mul q (Some 10))))
       \<and> score_pipeline (Some g) (Some g) = Inr (Some 10)"
  using assms
  by (simp add: score_pipeline_def py_eq_def py_gt_def py_lt_def py_truediv_def and_then_def
      py_mul_def py_round1_def round_half_even_def)

theorem pipeline_tie_witness:
  "(10::rat) \<noteq> 0 \<and> \<not> py_gt (Some 10) (Some 10) \<and> score_pipeline (Some 10) (Some 10) = Inr (Some 10)"
proof -
  have h: "(10::rat) \<noteq> 0" by simp
  from pipeline_tie [OF h] h show ?thesis by blast
qed

section \<open>Properties of selection, cleaning and aggregation\<close>

subsection \<open>Reading selected columns never fails\<close>

lemma getitem_present:
  assumes "c \<in> set (columns df)"
  shows "\<exists>cells. getitem df c = Inr cells \<and> (c, cells) \<in> set df"
proof -
  from assms have "map_of df c \<noteq> None"
    by (simp add: columns_def map_of_eq_None_iff)
  then obtain cells where "map_of df c = Some cells" by blast
  then show ?thesis by (auto simp: getitem_def dest: map_of_SomeD)
qed

lemma getitems_present:
  assumes "set cs \<subseteq> set (columns df)"
  shows "\<exists>cols. getitems df cs = Inr cols \<and> length cols = length cs"
  using assms
proof (induction cs)
  case Nil
  then show ?case by simp
next
  case (Cons c cs)
  then obtain cols where "getitems df cs = Inr cols" "length cols = length cs" by auto
  moreover from Cons.prems obtain cells where "getitem df c = Inr cells"
    using getitem_present [of c df] by auto
  ultimately show ?case by (simp add: and_then_def)
qed

lemma getitems_cells:
  assumes "set cs \<subseteq> set (columns df)"
  shows "\<exists>cols. getitems df cs = Inr cols \<and> list_all2 (\<lambda>c cells. (c, cells) \<in> set df) cs cols"
  using assms
proof (induction cs)
  case Nil
  then show ?case by simp
next
  case (Cons c cs)
  then obtain cols where "getitems df cs = Inr cols"
      "list_all2 (\<lambda>c cells. (c, cells) \<in> set df) cs cols" by auto
  moreover from Cons.prems obtain cells where "getitem df c = Inr cells" "(c, cells) \<in> set df"
    using getitem_present [of c df] by auto
  ultimately show ?case by (simp add: and_then_def)
qed

lemma income_cols_subset: "set (income_cols df) \<subseteq> set (columns df)"
  by (simp add: income_cols_def)

lemma count_cols_subset: "set (count_cols df) \<subseteq> set (columns df)"
  by (simp add: count_cols_def)

subsection \<open>Means of series without a value\<close>

lemma series_mean_all_nan:
  assumes "list_all (\<lambda>x. x = None) xs"
  shows "series_mean xs = None"
proof -
  have "List.map_filter (\<lambda>x. x) xs = []" using assms
    by (induction xs) (simp_all add: List.map_filter_simps)
  then show ?thesis by (simp add: series_mean_def)
qed

lemma frame_mean_all_nan:
  assumes "list_all (list_all (\<lambda>x. x = None)) cols"
  shows "frame_mean cols = None"
proof -
  have "list_all (\<lambda>x. x = None) (map series_mean cols)" using assms
    by (induction cols) (simp_all add: series_mean_all_nan)
  then show ?thesis unfolding frame_mean_def by (rule series_mean_all_nan)
qed

subsection \<open>Strings\<close>

lemma str_contains_iff: "str_contains s sub \<longleftrightarrow> is_substring sub s"
proof (induction s)
  case Nil
  then show ?case by (auto simp: is_substring_def)
next
  case (Cons c cs)
  have pre: "take (length sub) (c # cs) = sub \<longleftrightarrow> (\<exists>q. c # cs = sub @ q)"
    by (metis append_eq_conv_conj append_take_drop_id)
  show ?case
  proof
    assume "str_contains (c # cs) sub"
    then consider "take (length sub) (c # cs) = sub" | "str_contains cs sub" by auto
    then show "is_substring sub (c # cs)"
    proof cases
      case 1
      with pre obtain q where "c # cs = [] @ sub @ q" by auto
      then show ?thesis unfolding is_substring_def by blast
    next
      case 2
      with Cons.IH obtain p q where "cs = p @ sub @ q" unfolding is_substring_def by blast
      then have "c # cs = (c # p) @ sub @ q" by simp
      then show ?thesis unfolding is_substring_def by blast
    qed
  next
    assume "is_substring sub (c # cs)"
    then obtain p q where pq: "c # cs = p @ sub @ q" unfolding is_substring_def by blast
    show "str_contains (c # cs) sub"
    proof (cases p)
      case Nil
      with pq have "c # cs = sub @ q" by simp
      with pre have "take (length sub) (c # cs) = sub" by blast
      then show ?thesis by simp
    next
      case (Cons a p')
      with pq have "cs = p' @ sub @ q" by simp
      then have "is_substring sub cs" unfolding is_substring_def by blast
      with Cons.IH show ?thesis by simp
    qed
  qed
qed

lemma filter_is_removeAll:
  "filter (\<lambda>ch. ch \<noteq> pound \<and> ch \<noteq> CHR '','') s = removeAll (CHR '','') (removeAll pound s)"
  by (induction s) auto

lemma dropWhile_fixed:
  assumes "case s of [] \<Rightarrow> True | c # _ \<Rightarrow> \<not> P c"
  shows "dropWhile P s = s"
  using assms by (cases s) simp_all

lemma strip_either_order:
  "rev (dropWhile P (rev (dropWhile P s))) = dropWhile P (rev (dropWhile P (rev s)))"
proof (cases "\<forall>x\<in>set s. P x")
  case True
  then have d: "dropWhile P s = []" "dropWhile P (rev s) = []" by simp_all
  show ?thesis unfolding d by simp
next
  case False
  define a where "a = takeWhile P s"
  define m where "m = dropWhile P s"
  have s: "s = a @ m" by (simp add: a_def m_def)
  have a: "\<And>x. x \<in> set a \<Longrightarrow> P x" unfolding a_def by (rule set_takeWhileD [THEN conjunct2])
  from False have "m \<noteq> []" by (simp add: m_def)
  then obtain x t where m: "m = x # t" by (cases m) auto
  have x: "\<not> P x" using m hd_dropWhile [of P s] False by (simp add: m_def)
  have "dropWhile P (rev s) = dropWhile P (rev t @ [x]) @ rev a"
    using x by (simp add: s m dropWhile_append)
  moreover have "\<exists>u. dropWhile P (rev t @ [x]) = u @ [x]"
    using x by (simp add: dropWhile_append)
  then obtain u where u: "dropWhile P (rev t @ [x]) = u @ [x]" by blast
  ultimately have "rev (dropWhile P (rev s)) = a @ x # rev u" by simp
  then have "dropWhile P (rev (dropWhile P (rev s))) = x # rev u"
    using a x by (simp add: dropWhile_append2)
  moreover have "rev (dropWhile P (rev (dropWhile P s))) = x # rev u"
    using u by (simp add: m_def [symmetric] m)
  ultimately show ?thesis by simp
qed

lemma strip_clean:
  assumes "already_clean s"
  shows "strip s = s"
proof -
  from assms have "dropWhile isspace s = s" "dropWhile isspace (rev s) = rev s"
    by (simp_all add: already_clean_def dropWhile_fixed)
  then show ?thesis by (simp add: strip_def)
qed

lemma filter_clean:
  assumes "already_clean s"
  shows "filter (\<lambda>ch. ch \<noteq> pound \<and> ch \<noteq> CHR '','') s = s"
  using assms by (auto simp: already_clean_def filter_id_conv)

lemma clean_cell_is_value_cleaner:
  "num (strip (filter (\<lambda>ch. ch \<noteq> pound \<and> ch \<noteq> CHR '','') s)) = value_cleaner num s"
  by (simp add: value_cleaner_def strip_def filter_is_removeAll strip_either_order)

subsection \<open>Running the model\<close>

lemmas run_defs =
  decimal_def signed_decimal_def is_blank_def unsigned_decimal_def digit_of_def
  value_cleaner_def isspace_def pound_def strip_def clean_currency_def astype_str_def to_numeric_def to_numeric_scalar_def
  replace_comma_def getitem_def and_then_def columns_def income_cols_def count_cols_def
  interaction_col_def events_col_def series_mean_def frame_mean_def List.map_filter_simps
  income_numeric_v1_def gift_numeric_v1_def avg_income_v1_def avg_gifts_v1_def
  interactions_numeric_v1_def avg_interactions_v1_def events_numeric_def avg_events_v1_def
  averages_v1_def pipeline_score_v1_def largest_gift_v1_def
  income_data_v2_def gift_data_v2_def avg_income_v2_def avg_gifts_v2_def
  interactions_series_v2_def avg_interactions_v2_def avg_events_v2_def averages_v2_def
  pipeline_score_v2_def largest_gift_v2_def
  scenario_table_def unreadable_table_def header_only_table_def no_value_def

lemma print_small: "print_number 15 = ''15.0''" "print_number 4 = ''4.0''"
  by code_simp+

lemma selected_frames_return:
  "\<exists>cols. getitems df (income_cols df) = Inr cols"
  "\<exists>cols. getitems df (count_cols df) = Inr cols"
  using getitems_present [OF income_cols_subset] getitems_present [OF count_cols_subset]
  by blast+

lemma no_value_means:
  "no_value xs \<Longrightarrow> series_mean xs = None"
  "list_all no_value cols \<Longrightarrow> frame_mean cols = None"
proof -
  have eq: "no_value = list_all (\<lambda>x. x = None)" by (simp add: fun_eq_iff no_value_def)
  show "no_value xs \<Longrightarrow> series_mean xs = None"
    unfolding eq by (rule series_mean_all_nan)
  show "list_all no_value cols \<Longrightarrow> frame_mean cols = None"
    unfolding eq by (rule frame_mean_all_nan)
qed

lemma clean_currency_is_value_cleaner:
  "clean_currency num fmt series = map (\<lambda>c. value_cleaner num (astype_str fmt c)) series"
  by (simp add: clean_currency_def clean_cell_is_value_cleaner)

lemma v1_comma_rule:
  "to_numeric num (replace_comma series)
     = map (\<lambda>c. case c of Text s \<Rightarrow> num (removeAll (CHR '','') s) | Number q \<Rightarrow> Some q
                 | Blank \<Rightarrow> None) series"
  by (auto simp: to_numeric_def replace_comma_def to_numeric_scalar_def removeAll_filter_not_eq
      split: cell.splits intro!: arg_cong [where f = num] filter_cong)

lemma plain_rule:
  "to_numeric num series
     = map (\<lambda>c. case c of Text s \<Rightarrow> num s | Number q \<Rightarrow> Some q | Blank \<Rightarrow> None) series"
  by (simp add: to_numeric_def to_numeric_scalar_def fun_eq_iff)

lemma averages_v1_return:
  "\<exists>r. avg_income_v1 num df = Inr r"
  "\<exists>r. avg_gifts_v1 num df = Inr r"
  "\<exists>r. avg_interactions_v1 num df = Inr r"
  "\<exists>r. avg_events_v1 num df = Inr r"
proof -
  from selected_frames_return(1) [of df] show "\<exists>r. avg_income_v1 num df = Inr r"
    by (auto simp: avg_income_v1_def income_numeric_v1_def and_then_def)
  from selected_frames_return(2) [of df] show "\<exists>r. avg_gifts_v1 num df = Inr r"
    by (auto simp: avg_gifts_v1_def gift_numeric_v1_def and_then_def)
  show "\<exists>r. avg_interactions_v1 num df = Inr r"
    using getitem_present [of interaction_col df]
    by (auto simp: avg_interactions_v1_def interactions_numeric_v1_def and_then_def)
  show "\<exists>r. avg_events_v1 num df = Inr r"
    using getitem_present [of events_col df]
    by (auto simp: avg_events_v1_def events_numeric_def and_then_def)
qed

section \<open>The claims about tables\<close>

text \<open>
  Claim C2, as stated: in both versions the Value Cleaner rule is applied to the income,
  interactions and largest-gift columns. Version 1 does not: on the income column of the
  scenario it leaves the pound sign in place and reads nothing, where the rule reads the
  three amounts; and it reads an interactions cell \<^verbatim>\<open>1,000\<close> as "not available",
  where the rule reads 1000.
\<close>

theorem v1_cleaning_counterexample:
  "income_numeric_v1 decimal scenario_table = Inr [ [None, None, None] ]
   \<and> map (value_cleaner decimal) [pound # ''1,000,000'', pound # ''2,000,000'', pound # ''3,000,000'']
       = [Some 1000000, Some 2000000, Some 3000000]
   \<and> income_numeric_v1 decimal scenario_table
       \<noteq> Inr [map (value_cleaner decimal)
                 [pound # ''1,000,000'', pound # ''2,000,000'', pound # ''3,000,000''] ]
   \<and> interactions_numeric_v1 decimal [(''No. Interactions*'', [Text ''1,000''])] = Inr [None]
   \<and> map (value_cleaner decimal) [''1,000''] = [Some 1000]
   \<and> interactions_numeric_v1 decimal [(''No. Interactions*'', [Text ''1,000''])]
       \<noteq> Inr (map (value_cleaner decimal) [''1,000''])"
  by (simp add: run_defs)

text \<open>
  Claim C2, amended. Version 2 applies the Value Cleaner rule to every cell of the income
  columns, of the interactions column and of the largest-gift column, and parses the
  gift-count and events columns plainly. Version 1 deletes commas only, and only from
  the string cells of the income and largest-gift columns, before the plain parse; it
  parses the interactions, gift-count and events columns plainly. None of these reads
  fails.
\<close>

theorem cleaning_by_column:
  "(\<exists>cols. getitems df (income_cols df) = Inr cols
      \<and> income_data_v2 num fmt df
          = Inr (map (map (\<lambda>c. value_cleaner num (astype_str fmt c))) cols)
      \<and> income_numeric_v1 num df
          = Inr (map (map (\<lambda>c. case c of Text s \<Rightarrow> num (removeAll (CHR '','') s)
                                   | Number q \<Rightarrow> Some q | Blank \<Rightarrow> None)) cols))
   \<and> (\<exists>cols. getitems df (count_cols df) = Inr cols
      \<and> gift_data_v2 num df
          = Inr (map (map (\<lambda>c. case c of Text s \<Rightarrow> num s | Number q \<Rightarrow> Some q
                                   | Blank \<Rightarrow> None)) cols)
      \<and> gift_numeric_v1 num df = gift_data_v2 num df)
   \<and> (interaction_col \<in> set (columns df) \<longrightarrow>
        (\<exists>cells. getitem df interaction_col = Inr cells
           \<and> interactions_series_v2 num fmt df
               = Inr (map (\<lambda>c. value_cleaner num (astype_str fmt c)) cells)
           \<and> interactions_numeric_v1 num df
               = Inr (map (\<lambda>c. case c of Text s \<Rightarrow> num s | Number q \<Rightarrow> Some q
                                  | Blank \<Rightarrow> None) cells)))
   \<and> (events_col \<in> set (columns df) \<longrightarrow>
        (\<exists>cells. getitem df events_col = Inr cells
           \<and> events_numeric num df
               = Inr (map (\<lambda>c. case c of Text s \<Rightarrow> num s | Number q \<Rightarrow> Some q
                                  | Blank \<Rightarrow> None) cells)))
   \<and> (''Largest Gift'' \<in> set (columns df) \<longrightarrow>
        (\<exists>cells. getitem df ''Largest Gift'' = Inr cells
           \<and> largest_gift_v2 num fmt df
               = Inr (Some (map (\<lambda>c. value_cleaner num (astype_str fmt c)) cells))
           \<and> largest_gift_v1 num df
               = Inr (Some (map (\<lambda>c. case c of Text s \<Rightarrow> num (removeAll (CHR '','') s)
                                        | Number q \<Rightarrow> Some q | Blank \<Rightarrow> None) cells))))"
  (is "?income \<and> ?gifts \<and> ?inter \<and> ?events \<and> ?largest")
proof -
  obtain ic where ic: "getitems df (income_cols df) = Inr ic"
    using selected_frames_return(1) by blast
  have income: ?income
    by (rule exI [of _ ic])
      (simp add: ic income_data_v2_def income_numeric_v1_def and_then_def
        clean_currency_is_value_cleaner v1_comma_rule)
  obtain cc where cc: "getitems df (count_cols df) = Inr cc"
    using selected_frames_return(2) by blast
  have gifts: ?gifts
    by (rule exI [of _ cc])
      (simp add: cc gift_data_v2_def gift_numeric_v1_def and_then_def plain_rule)
  have inter: ?inter
  proof
    assume "interaction_col \<in> set (columns df)"
    then obtain cells where c: "getitem df interaction_col = Inr cells"
      using getitem_present by blast
    show "\<exists>cells. getitem df interaction_col = Inr cells
           \<and> interactions_series_v2 num fmt df
               = Inr (map (\<lambda>c. value_cleaner num (astype_str fmt c)) cells)
           \<and> interactions_numeric_v1 num df
               = Inr (map (\<lambda>c. case c of Text s \<Rightarrow> num s | Number q \<Rightarrow> Some q
                                  | Blank \<Rightarrow> None) cells)"
      using \<open>interaction_col \<in> set (columns df)\<close>
      by (intro exI [of _ cells])
        (simp add: c interactions_series_v2_def interactions_numeric_v1_def and_then_def
          clean_currency_is_value_cleaner plain_rule)
  qed
  have events: ?events
  proof
    assume "events_col \<in> set (columns df)"
    then obtain cells where c: "getitem df events_col = Inr cells"
      using getitem_present by blast
    show "\<exists>cells. getitem df events_col = Inr cells
           \<and> events_numeric num df
               = Inr (map (\<lambda>c. case c of Text s \<Rightarrow> num s | Number q \<Rightarrow> Some q
                                  | Blank \<Rightarrow> None) cells)"
      by (intro exI [of _ cells]) (simp add: c events_numeric_def and_then_def plain_rule)
  qed
  have largest: ?largest
  proof
    assume p: "''Largest Gift'' \<in> set (columns df)"
    then obtain cells where c: "getitem df ''Largest Gift'' = Inr cells"
      using getitem_present by blast
    show "\<exists>cells. getitem df ''Largest Gift'' = Inr cells
           \<and> largest_gift_v2 num fmt df
               = Inr (Some (map (\<lambda>c. value_cleaner num (astype_str fmt c)) cells))
           \<and> largest_gift_v1 num df
               = Inr (Some (map (\<lambda>c. case c of Text s \<Rightarrow> num (removeAll (CHR '','') s)
                                        | Number q \<Rightarrow> Some q | Blank \<Rightarrow> None) cells))"
      using p
      by (intro exI [of _ cells])
        (simp add: c largest_gift_v2_def largest_gift_v1_def and_then_def
          clean_currency_is_value_cleaner v1_comma_rule)
  qed
  from income gifts inter events largest show ?thesis by blast
qed

theorem cleaning_by_column_witness:
  "interaction_col \<in> set (columns scenario_table)
   \<and> events_col \<in> set (columns scenario_table)
   \<and> ''Largest Gift'' \<in> set (columns scenario_table)
   \<and> (\<exists>cells. getitem scenario_table ''Largest Gift'' = Inr cells
         \<and> largest_gift_v2 decimal print_number scenario_table
             = Inr (Some (map (\<lambda>c. value_cleaner decimal (astype_str print_number c)) cells)))
   \<and> largest_gift_v2 decimal print_number scenario_table
       = Inr (Some [Some 5000, Some 7500, Some 250])
   \<and> largest_gift_v1 decimal scenario_table = Inr (Some [None, Some 7500, Some 250])
   \<and> income_data_v2 decimal print_number scenario_table
       = Inr [ [Some 1000000, Some 2000000, Some 3000000] ]"
proof -
  have p: "interaction_col \<in> set (columns scenario_table)"
    "events_col \<in> set (columns scenario_table)"
    "''Largest Gift'' \<in> set (columns scenario_table)"
    by (simp_all add: run_defs)
  have v: "largest_gift_v2 decimal print_number scenario_table
       = Inr (Some [Some 5000, Some 7500, Some 250])"
    "largest_gift_v1 decimal scenario_table = Inr (Some [None, Some 7500, Some 250])"
    "income_data_v2 decimal print_number scenario_table
       = Inr [ [Some 1000000, Some 2000000, Some 3000000] ]"
    by (simp_all add: run_defs)
  from cleaning_by_column [of scenario_table decimal print_number] p
  have "\<exists>cells. getitem scenario_table ''Largest Gift'' = Inr cells
         \<and> largest_gift_v2 decimal print_number scenario_table
             = Inr (Some (map (\<lambda>c. value_cleaner decimal (astype_str print_number c)) cells))"
    by blast
  with p v show ?thesis by blast
qed

text \<open>
  Claim C7, as stated: for every table a column without a readable cell has a "not
  available" mean and so has its bucket. A file with a header line and no rows has an
  interactions column without a readable cell, and version 2 gives it the average 0.
\<close>

theorem header_only_interactions_counterexample:
  "interactions_series_v2 decimal print_number header_only_table = Inr []
   \<and> no_value []
   \<and> avg_interactions_v2 decimal print_number header_only_table = Inr (Some 0)
   \<and> avg_interactions_v2 decimal print_number header_only_table \<noteq> Inr None"
  by (simp add: run_defs)

text \<open>
  Claim C7, amended. A series without a value has a "not available" mean, and so has a
  frame made of such series. For every table, in both versions, the cleaned income and
  gift-count frames are computed without an error and their average is "not available"
  when no column has a value; when the interactions or the events column is present its
  cleaned series is computed without an error and its average is "not available" when
  the series has no value, except that version 2 requires at least one row of the
  interactions column: its average of an empty series is 0.
\<close>

theorem unavailable_means:
  "(no_value xs \<longrightarrow> series_mean xs = None)
   \<and> (list_all no_value cols \<longrightarrow> frame_mean cols = None)
   \<and> (\<exists>d. income_numeric_v1 num df = Inr d
         \<and> (list_all no_value d \<longrightarrow> avg_income_v1 num df = Inr None))
   \<and> (\<exists>d. gift_numeric_v1 num df = Inr d
         \<and> (list_all no_value d \<longrightarrow> avg_gifts_v1 num df = Inr None))
   \<and> (\<exists>d. income_data_v2 num fmt df = Inr d
         \<and> (list_all no_value d \<longrightarrow> avg_income_v2 num fmt df = Inr None))
   \<and> (\<exists>d. gift_data_v2 num df = Inr d
         \<and> (list_all no_value d \<longrightarrow> avg_gifts_v2 num df = Inr None))
   \<and> (interaction_col \<in> set (columns df) \<longrightarrow>
        (\<exists>s. interactions_numeric_v1 num df = Inr s
           \<and> (no_value s \<longrightarrow> avg_interactions_v1 num df = Inr None)))
   \<and> (events_col \<in> set (columns df) \<longrightarrow>
        (\<exists>s. events_numeric num df = Inr s
           \<and> (no_value s \<longrightarrow> avg_events_v1 num df = Inr None \<and> avg_events_v2 num df = Inr None)))
   \<and> (\<exists>s. interactions_series_v2 num fmt df = Inr s
         \<and> (s \<noteq> [] \<and> no_value s \<longrightarrow> avg_interactions_v2 num fmt df = Inr None)
         \<and> (s = [] \<longrightarrow> avg_interactions_v2 num fmt df = Inr (Some 0)))"
  (is "?col \<and> ?bucket \<and> ?i1 \<and> ?g1 \<and> ?i2 \<and> ?g2 \<and> ?a1 \<and> ?ev \<and> ?a2")
proof -
  obtain ic where ic: "getitems df (income_cols df) = Inr ic"
    using selected_frames_return(1) by blast
  obtain cc where cc: "getitems df (count_cols df) = Inr cc"
    using selected_frames_return(2) by blast
  have col: ?col and bucket: ?bucket by (simp_all add: no_value_means)
  have i1: ?i1
    by (simp add: income_numeric_v1_def avg_income_v1_def ic and_then_def no_value_means)
  have g1: ?g1
    by (simp add: gift_numeric_v1_def avg_gifts_v1_def cc and_then_def no_value_means)
  have i2: ?i2
    by (simp add: income_data_v2_def avg_income_v2_def ic and_then_def no_value_means)
  have g2: ?g2
    by (simp add: gift_data_v2_def avg_gifts_v2_def cc and_then_def no_value_means)
  have a1: ?a1
  proof
    assume p: "interaction_col \<in> set (columns df)"
    then obtain cells where c: "getitem df interaction_col = Inr cells"
      using getitem_present by blast
    show "\<exists>s. interactions_numeric_v1 num df = Inr s
           \<and> (no_value s \<longrightarrow> avg_interactions_v1 num df = Inr None)"
      using p by (simp add: interactions_numeric_v1_def avg_interactions_v1_def c and_then_def
          no_value_means)
  qed
  have ev: ?ev
  proof
    assume p: "events_col \<in> set (columns df)"
    then obtain cells where c: "getitem df events_col = Inr cells"
      using getitem_present by blast
    show "\<exists>s. events_numeric num df = Inr s
           \<and> (no_value s \<longrightarrow> avg_events_v1 num df = Inr None \<and> avg_events_v2 num df = Inr None)"
      using p by (simp add: events_numeric_def avg_events_v1_def avg_events_v2_def c and_then_def
          no_value_means)
  qed
  have a2: ?a2
  proof (cases "interaction_col \<in> set (columns df)")
    case True
    then obtain cells where c: "getitem df interaction_col = Inr cells"
      using getitem_present by blast
    show ?thesis
      using True by (simp add: interactions_series_v2_def avg_interactions_v2_def c and_then_def
          no_value_means)
  next
    case False
    then show ?thesis
      by (simp add: interactions_series_v2_def avg_interactions_v2_def and_then_def)
  qed
  from col bucket i1 g1 i2 g2 a1 ev a2 show ?thesis by blast
qed

theorem unavailable_means_witness:
  "no_value [None, None]
   \<and> list_all no_value [ [None, None] ]
   \<and> interaction_col \<in> set (columns unreadable_table)
   \<and> events_col \<in> set (columns unreadable_table)
   \<and> income_numeric_v1 decimal unreadable_table = Inr [ [None, None] ]
   \<and> avg_income_v1 decimal unreadable_table = Inr None
   \<and> interactions_series_v2 decimal print_number unreadable_table = Inr [None, None]
   \<and> avg_interactions_v2 decimal print_number unreadable_table = Inr None
   \<and> series_mean [None, None] = None
   \<and> frame_mean [ [None, None] ] = None"
proof -
  have h: "no_value [None, None]" "list_all no_value [ [None, None] ]"
    "interaction_col \<in> set (columns unreadable_table)"
    "events_col \<in> set (columns unreadable_table)"
    by (simp_all add: run_defs)
  have d: "income_numeric_v1 decimal unreadable_table = Inr [ [None, None] ]"
    "interactions_series_v2 decimal print_number unreadable_table = Inr [None, None]"
    by (simp_all add: run_defs)
  from unavailable_means [of "[None, None]" "[ [None, None] ]" decimal unreadable_table print_number]
    h d
  have "avg_income_v1 decimal unreadable_table = Inr None"
    "avg_interactions_v2 decimal print_number unreadable_table = Inr None"
    "series_mean [None, None] = None" "frame_mean [ [None, None] ] = None"
    by auto
  with h d show ?thesis by blast
qed

text \<open>
  Claim C8. The income bucket is the column names that contain \<^verbatim>\<open>Donations\<close> and do
  not contain \<^verbatim>\<open>Count\<close>, the gift-count bucket the names that contain
  \<^verbatim>\<open>Donations Count\<close>, in the order of the table. The interactions, events and
  largest-gift data are the cells of the columns named exactly
  \<^verbatim>\<open>No. Interactions*\<close>, \<^verbatim>\<open>No Events Attended\<close> and \<^verbatim>\<open>Largest Gift\<close>
  when the table has them; otherwise nothing is read (an empty series, the default 0,
  no chart series). The averages of both versions are computed from exactly these
  columns: the income and gift-count averages from the cells of the selected names, the
  interactions and events averages from the cells of the column of that exact name.
\<close>

theorem column_selector:
  "income_cols df
     = filter (\<lambda>c. is_substring ''Donations'' c \<and> \<not> is_substring ''Count'' c) (columns df)
   \<and> set (income_cols df)
       = {c \<in> set (columns df). is_substring ''Donations'' c \<and> \<not> is_substring ''Count'' c}
   \<and> count_cols df = filter (\<lambda>c. is_substring ''Donations Count'' c) (columns df)
   \<and> set (count_cols df) = {c \<in> set (columns df). is_substring ''Donations Count'' c}
   \<and> (\<exists>cols. getitems df (income_cols df) = Inr cols
         \<and> list_all2 (\<lambda>c cells. (c, cells) \<in> set df) (income_cols df) cols
         \<and> avg_income_v1 num df
             = Inr (frame_mean (map (\<lambda>series. to_numeric num (replace_comma series)) cols))
         \<and> avg_income_v2 num fmt df = Inr (frame_mean (map (clean_currency num fmt) cols)))
   \<and> (\<exists>cols. getitems df (count_cols df) = Inr cols
         \<and> list_all2 (\<lambda>c cells. (c, cells) \<in> set df) (count_cols df) cols
         \<and> avg_gifts_v1 num df = Inr (frame_mean (map (to_numeric num) cols))
         \<and> avg_gifts_v2 num df = Inr (frame_mean (map (to_numeric num) cols)))
   \<and> (if ''No. Interactions*'' \<in> set (columns df)
       then \<exists>cells. (''No. Interactions*'', cells) \<in> set df
              \<and> getitem df ''No. Interactions*'' = Inr cells
              \<and> interactions_numeric_v1 num df = Inr (to_numeric num cells)
              \<and> avg_interactions_v1 num df = Inr (series_mean (to_numeric num cells))
              \<and> interactions_series_v2 num fmt df = Inr (clean_currency num fmt cells)
              \<and> avg_interactions_v2 num fmt df
                  = Inr (if clean_currency num fmt cells \<noteq> []
                         then series_mean (clean_currency num fmt cells) else Some 0)
       else avg_interactions_v1 num df = Inr (Some 0)
              \<and> interactions_series_v2 num fmt df = Inr []
              \<and> avg_interactions_v2 num fmt df = Inr (Some 0))
   \<and> (if ''No Events Attended'' \<in> set (columns df)
       then \<exists>cells. (''No Events Attended'', cells) \<in> set df
              \<and> getitem df ''No Events Attended'' = Inr cells
              \<and> events_numeric num df = Inr (to_numeric num cells)
              \<and> avg_events_v1 num df = Inr (series_mean (to_numeric num cells))
              \<and> avg_events_v2 num df = Inr (series_mean (to_numeric num cells))
       else avg_events_v1 num df = Inr (Some 0) \<and> avg_events_v2 num df = Inr (Some 0))
   \<and> (if ''Largest Gift'' \<in> set (columns df)
       then \<exists>cells. (''Largest Gift'', cells) \<in> set df
              \<and> getitem df ''Largest Gift'' = Inr cells
              \<and> largest_gift_v1 num df = Inr (Some (to_numeric num (replace_comma cells)))
              \<and> largest_gift_v2 num fmt df = Inr (Some (clean_currency num fmt cells))
       else largest_gift_v1 num df = Inr None \<and> largest_gift_v2 num fmt df = Inr None)"
  (is "?inc \<and> ?incset \<and> ?cnt \<and> ?cntset \<and> ?incuse \<and> ?cntuse \<and> ?ia \<and> ?ev \<and> ?lg")
proof -
  have inc: ?inc by (simp add: income_cols_def str_contains_iff)
  have cnt: ?cnt by (simp add: count_cols_def str_contains_iff)
  have incset: ?incset unfolding inc by auto
  have cntset: ?cntset unfolding cnt by auto
  obtain ic where ic: "getitems df (income_cols df) = Inr ic"
      "list_all2 (\<lambda>c cells. (c, cells) \<in> set df) (income_cols df) ic"
    using getitems_cells [OF income_cols_subset] by blast
  have incuse: ?incuse
    by (rule exI [of _ ic])
      (simp add: ic avg_income_v1_def income_numeric_v1_def avg_income_v2_def
        income_data_v2_def and_then_def)
  obtain cc where cc: "getitems df (count_cols df) = Inr cc"
      "list_all2 (\<lambda>c cells. (c, cells) \<in> set df) (count_cols df) cc"
    using getitems_cells [OF count_cols_subset] by blast
  have cntuse: ?cntuse
    by (rule exI [of _ cc])
      (simp add: cc avg_gifts_v1_def gift_numeric_v1_def avg_gifts_v2_def gift_data_v2_def
        and_then_def)
  have ia: ?ia
  proof (cases "''No. Interactions*'' \<in> set (columns df)")
    case True
    then obtain cells where c: "getitem df interaction_col = Inr cells"
        "(interaction_col, cells) \<in> set df"
      using getitem_present [of interaction_col df] by (auto simp: interaction_col_def)
    have body: "(''No. Interactions*'', cells) \<in> set df
        \<and> getitem df ''No. Interactions*'' = Inr cells
        \<and> interactions_numeric_v1 num df = Inr (to_numeric num cells)
        \<and> avg_interactions_v1 num df = Inr (series_mean (to_numeric num cells))
        \<and> interactions_series_v2 num fmt df = Inr (clean_currency num fmt cells)
        \<and> avg_interactions_v2 num fmt df
            = Inr (if clean_currency num fmt cells \<noteq> []
                   then series_mean (clean_currency num fmt cells) else Some 0)"
      using True c
      by (simp add: interaction_col_def [symmetric] avg_interactions_v1_def
          interactions_numeric_v1_def interactions_series_v2_def avg_interactions_v2_def
          and_then_def)
    show ?thesis unfolding if_P [OF True] by (rule exI [of _ cells]) (rule body)
  next
    case False
    then show ?thesis
      by (simp add: interaction_col_def [symmetric] avg_interactions_v1_def
          interactions_series_v2_def avg_interactions_v2_def and_then_def)
  qed
  have ev: ?ev
  proof (cases "''No Events Attended'' \<in> set (columns df)")
    case True
    then obtain cells where c: "getitem df events_col = Inr cells"
        "(events_col, cells) \<in> set df"
      using getitem_present [of events_col df] by (auto simp: events_col_def)
    have body: "(''No Events Attended'', cells) \<in> set df
        \<and> getitem df ''No Events Attended'' = Inr cells
        \<and> events_numeric num df = Inr (to_numeric num cells)
        \<and> avg_events_v1 num df = Inr (series_mean (to_numeric num cells))
        \<and> avg_events_v2 num df = Inr (series_mean (to_numeric num cells))"
      using True c
      by (simp add: events_col_def [symmetric] avg_events_v1_def avg_events_v2_def
          events_numeric_def and_then_def)
    show ?thesis unfolding if_P [OF True] by (rule exI [of _ cells]) (rule body)
  next
    case False
    then show ?thesis
      by (simp add: events_col_def [symmetric] avg_events_v1_def avg_events_v2_def)
  qed
  have lg: ?lg
  proof (cases "''Largest Gift'' \<in> set (columns df)")
    case True
    then obtain cells where c: "getitem df ''Largest Gift'' = Inr cells"
        "(''Largest Gift'', cells) \<in> set df"
      using getitem_present [of "''Largest Gift''" df] by auto
    have body: "(''Largest Gift'', cells) \<in> set df
        \<and> getitem df ''Largest Gift'' = Inr cells
        \<and> largest_gift_v1 num df = Inr (Some (to_numeric num (replace_comma cells)))
        \<and> largest_gift_v2 num fmt df = Inr (Some (clean_currency num fmt cells))"
      using True c by (simp add: largest_gift_v1_def largest_gift_v2_def and_then_def)
    show ?thesis unfolding if_P [OF True] by (rule exI [of _ cells]) (rule body)
  next
    case False
    then show ?thesis by (simp add: largest_gift_v1_def largest_gift_v2_def)
  qed
  from inc incset cnt cntset incuse cntuse ia ev lg show ?thesis by blast
qed

text \<open>
  Claim C9. On input that holds no pound sign and no comma and has no whitespace at
  either end, the cleaner of version 2 returns what parsing the input directly returns:
  for string cells it agrees with \<^verbatim>\<open>pd.to_numeric\<close>, the Value Cleaner rule agrees
  with the reader, and for any cell the cleaner reads the cell's own text unchanged.
\<close>

theorem clean_input_roundtrip:
  assumes "\<forall>s\<in>set texts. already_clean s"
    and "\<forall>c\<in>set series. already_clean (astype_str fmt c)"
  shows "clean_currency num fmt (map Text texts) = to_numeric num (map Text texts)
       \<and> map (value_cleaner num) texts = map num texts
       \<and> clean_currency num fmt series = map (\<lambda>c. num (astype_str fmt c)) series"
proof -
  have one: "num (strip (filter (\<lambda>ch. ch \<noteq> pound \<and> ch \<noteq> CHR '','') s)) = num s"
    if "already_clean s" for s
    using that by (simp add: filter_clean strip_clean)
  have "clean_currency num fmt (map Text texts) = to_numeric num (map Text texts)"
    using assms(1) by (simp add: clean_currency_def to_numeric_def to_numeric_scalar_def
        astype_str_def one)
  moreover have "map (value_cleaner num) texts = map num texts"
    using assms(1) one by (simp add: clean_cell_is_value_cleaner [symmetric])
  moreover have "clean_currency num fmt series = map (\<lambda>c. num (astype_str fmt c)) series"
    using assms(2) by (simp add: clean_currency_def one)
  ultimately show ?thesis by blast
qed

theorem clean_input_roundtrip_witness:
  "already_clean ''12.5'' \<and> already_clean ''abc''
   \<and> already_clean (astype_str print_number (Number 15))
   \<and> already_clean (astype_str print_number Blank)
   \<and> clean_currency decimal print_number [Text ''12.5'', Text ''abc'']
       = to_numeric decimal [Text ''12.5'', Text ''abc'']
   \<and> to_numeric decimal [Text ''12.5'', Text ''abc''] = [Some (25 / 2), None]
   \<and> clean_currency decimal print_number [Number 15, Blank] = [Some 15, None]"
proof -
  have t: "\<forall>s\<in>set [''12.5'', ''abc'']. already_clean s"
    by (simp add: already_clean_def isspace_def pound_def)
  have c: "\<forall>c\<in>set [Number 15, Blank]. already_clean (astype_str print_number c)"
    by (simp add: already_clean_def isspace_def pound_def astype_str_def print_small)
  have v: "to_numeric decimal [Text ''12.5'', Text ''abc''] = [Some (25 / 2), None]"
    by (simp add: run_defs)
  have p: "map (\<lambda>c. decimal (astype_str print_number c)) [Number 15, Blank] = [Some 15, None]"
    by (simp add: run_defs print_small)
  from clean_input_roundtrip [OF t c, of decimal] t c v p show ?thesis by simp
qed

text \<open>
  Claim C10. In version 1, when the table has no column named exactly
  \<^verbatim>\<open>No. Interactions*\<close>, the average of interactions is the number 0, the averages are
  computed without an error, and the pipeline score is 0 whatever the gift counts are.
\<close>

theorem missing_interactions_v1:
  assumes "interaction_col \<notin> set (columns df)"
  shows "avg_interactions_v1 num df = Inr (Some 0)
       \<and> (\<exists>m. averages_v1 num df = Inr m \<and> avg_interactions m = Some 0)
       \<and> pipeline_score_v1 num df = Inr (Some 0)"
proof -
  have a: "avg_interactions_v1 num df = Inr (Some 0)"
    using assms by (simp add: avg_interactions_v1_def)
  obtain i g e where r: "avg_income_v1 num df = Inr i" "avg_gifts_v1 num df = Inr g"
      "avg_events_v1 num df = Inr e"
    using averages_v1_return(1,2,4) [of num df] by blast
  have m: "averages_v1 num df
      = Inr \<lparr>avg_income = i, avg_gifts = g, avg_interactions = Some 0, avg_events = e\<rparr>"
    by (simp add: averages_v1_def a r and_then_def)
  have "pipeline_score_v1 num df = score_pipeline g (Some 0)"
    by (simp add: pipeline_score_v1_def m and_then_def)
  also have "\<dots> = Inr (Some 0)" by (simp add: score_pipeline_def py_eq_def)
  finally show ?thesis using a m by simp
qed

theorem missing_interactions_v1_witness:
  "interaction_col \<notin> set (columns [(''Donations Count 2023'', [Number 10, Number 20, Number 30])])
   \<and> avg_gifts_v1 decimal [(''Donations Count 2023'', [Number 10, Number 20, Number 30])]
       = Inr (Some 20)
   \<and> pipeline_score_v1 decimal [(''Donations Count 2023'', [Number 10, Number 20, Number 30])]
       = Inr (Some 0)"
proof -
  have h: "interaction_col
      \<notin> set (columns [(''Donations Count 2023'', [Number 10, Number 20, Number 30])])"
    by (simp add: interaction_col_def columns_def)
  have g: "avg_gifts_v1 decimal [(''Donations Count 2023'', [Number 10, Number 20, Number 30])]
      = Inr (Some 20)"
    by (simp add: run_defs)
  from missing_interactions_v1 [OF h, of decimal] h g show ?thesis by blast
qed

section \<open>The end-to-end scenario\<close>

text \<open>
  Claim C3, as stated: for average gift count 20 and average interactions 15 the pipeline
  score would be 13.3. It is not: 20 exceeds 15, so the branch for more gifts than asks
  is taken.
\<close>

theorem pipeline_20_15_counterexample:
  "score_pipeline (Some 20) (Some 15) \<noteq> Inr (Some (133 / 10))"
  by code_simp

text \<open>
  Claim C3, amended. \<open>score_pipeline(20, 15)\<close> is \<open>round(15 / 20 * 8, 1) = 6.0\<close> in both
  versions; 13.3 is what the other branch's formula \<open>round(20 / 15 * 10, 1)\<close> would give.
  Both versions compute the averages 20 and 15 from the scenario's table and score its
  pipeline 6.0.
\<close>

theorem pipeline_20_15:
  "py_gt (Some 20) (Some 15)
   \<and> score_pipeline (Some 20) (Some 15) = Inr (py_round1 (Some (15 / 20 * 8)))
   \<and> score_pipeline (Some 20) (Some 15) = Inr (Some 6)
   \<and> score_pipeline_v2 (Some 20) (Some 15) = Inr (Some 6)
   \<and> py_round1 (Some (20 / 15 * 10)) = Some (133 / 10)
   \<and> (\<exists>m. averages_v1 decimal scenario_table = Inr m
         \<and> avg_gifts m = Some 20 \<and> avg_interactions m = Some 15)
   \<and> (\<exists>m. averages_v2 decimal print_number scenario_table = Inr m
         \<and> avg_gifts m = Some 20 \<and> avg_interactions m = Some 15)
   \<and> pipeline_score_v1 decimal scenario_table = Inr (Some 6)
   \<and> pipeline_score_v2 decimal print_number scenario_table = Inr (Some 6)"
proof -
  have fn: "py_gt (Some 20) (Some 15)
      \<and> score_pipeline (Some 20) (Some 15) = Inr (py_round1 (Some (15 / 20 * 8)))
      \<and> score_pipeline (Some 20) (Some 15) = Inr (Some 6)
      \<and> score_pipeline_v2 (Some 20) (Some 15) = Inr (Some 6)
      \<and> py_round1 (Some (20 / 15 * 10)) = Some (133 / 10)"
    by code_simp
  have m1: "averages_v1 decimal scenario_table
      = Inr \<lparr>avg_income = None, avg_gifts = Some 20, avg_interactions = Some 15,
             avg_events = Some 4\<rparr>"
    by (simp add: run_defs)
  have m2: "averages_v2 decimal print_number scenario_table
      = Inr \<lparr>avg_income = Some 2000000, avg_gifts = Some 20, avg_interactions = Some 15,
             avg_events = Some 4\<rparr>"
    by (simp add: run_defs print_small)
  have s1: "score_pipeline (Some 20) (Some 15) = Inr (Some 6)"
    and s2: "score_pipeline_v2 (Some 20) (Some 15) = Inr (Some 6)"
    using fn by blast+
  have p1: "pipeline_score_v1 decimal scenario_table = Inr (Some 6)"
    by (simp add: pipeline_score_v1_def m1 and_then_def s1)
  have p2: "pipeline_score_v2 decimal print_number scenario_table = Inr (Some 6)"
    by (simp add: pipeline_score_v2_def m2 and_then_def s2)
  have e1: "\<exists>m. averages_v1 decimal scenario_table = Inr m
      \<and> avg_gifts m = Some 20 \<and> avg_interactions m = Some 15"
    by (simp add: m1)
  have e2: "\<exists>m. averages_v2 decimal print_number scenario_table = Inr m
      \<and> avg_gifts m = Some 20 \<and> avg_interactions m = Some 15"
    by (simp add: m2)
  from fn e1 e2 p1 p2 show ?thesis by blast
qed

end
